theory Spec2Isabelle
  imports Complex_Main
begin

section \<open>Python strings\<close>

text \<open>
  A Python \<open>str\<close> is modelled as a \<open>string\<close> whose characters are the code points
  0..255 (ASCII and the Latin-1 supplement).  On this range the built-in methods used by
  the tools are modelled exactly as CPython defines them.
\<close>

definition py_lower_char :: "char \<Rightarrow> char" where
  \<comment> \<open>\<open>str.lower\<close> on one code point: A..Z and the Latin-1 capitals (without the
      multiplication sign 215) move up by 32.\<close>
  "py_lower_char c =
     (let n = (of_char c :: nat)
      in if (65 \<le> n \<and> n \<le> 90) \<or> (192 \<le> n \<and> n \<le> 222 \<and> n \<noteq> 215)
         then char_of (n + 32) else c)"

definition lower :: "string \<Rightarrow> string" where
  "lower s = map py_lower_char s"

definition py_isspace :: "char \<Rightarrow> bool" where
  \<comment> \<open>\<open>str.isspace\<close> on one code point: TAB..CR, FS..US, space, NEL and NBSP.\<close>
  "py_isspace c =
     (let n = (of_char c :: nat)
      in (9 \<le> n \<and> n \<le> 13) \<or> (28 \<le> n \<and> n \<le> 32) \<or> n = 133 \<or> n = 160)"

definition strip :: "string \<Rightarrow> string" where
  \<comment> \<open>\<open>str.strip()\<close> without arguments.\<close>
  "strip s = rev (dropWhile py_isspace (rev (dropWhile py_isspace s)))"

fun startswith :: "string \<Rightarrow> string \<Rightarrow> bool" where
  \<comment> \<open>\<open>s.startswith(p)\<close>\<close>
  "startswith s [] = True"
| "startswith [] (p # ps) = False"
| "startswith (c # cs) (p # ps) = (c = p \<and> startswith cs ps)"

fun contains :: "string \<Rightarrow> string \<Rightarrow> bool" where
  \<comment> \<open>\<open>sub in s\<close> for two strings\<close>
  "contains [] sub = (sub = [])"
| "contains (c # cs) sub = (startswith (c # cs) sub \<or> contains cs sub)"

fun py_join :: "string \<Rightarrow> string list \<Rightarrow> string" where
  \<comment> \<open>\<open>sep.join(xs)\<close> for a list of strings\<close>
  "py_join sep [] = []"
| "py_join sep [x] = x"
| "py_join sep (x # y # ys) = x @ sep @ py_join sep (y # ys)"

definition digit_char :: "nat \<Rightarrow> char" where
  "digit_char d = char_of (48 + d)"

function str_nat :: "nat \<Rightarrow> string" where
  \<comment> \<open>the decimal rendering of a non-negative integer, as an f-string prints it\<close>
  "str_nat n = (if n < 10 then [digit_char n] else str_nat (n div 10) @ [digit_char (n mod 10)])"
  by pat_completeness auto
termination
  by (relation "measure id") auto

declare str_nat.simps [simp del]

definition hex_digit :: "nat \<Rightarrow> char" where
  \<comment> \<open>one digit of the format \<open>%02X\<close>\<close>
  "hex_digit d = (if d < 10 then char_of (48 + d) else char_of (55 + d))"

definition percent_byte :: "nat \<Rightarrow> string" where
  \<comment> \<open>\<open>'%{:02X}'.format(b)\<close>\<close>
  "percent_byte b = [CHR ''%'', hex_digit (b div 16), hex_digit (b mod 16)]"

definition always_safe :: "nat \<Rightarrow> bool" where
  \<comment> \<open>urllib's \<open>_ALWAYS_SAFE\<close>: letters, digits and \<open>_.-~\<close>\<close>
  "always_safe b =
     ((65 \<le> b \<and> b \<le> 90) \<or> (97 \<le> b \<and> b \<le> 122) \<or> (48 \<le> b \<and> b \<le> 57)
      \<or> b = 95 \<or> b = 46 \<or> b = 45 \<or> b = 126)"

definition utf8_encode_char :: "char \<Rightarrow> nat list" where
  \<comment> \<open>UTF-8 of a code point below 256: one byte below 128, two bytes otherwise\<close>
  "utf8_encode_char c =
     (let n = (of_char c :: nat)
      in if n < 128 then [n] else [192 + n div 64, 128 + n mod 64])"

definition quote_byte :: "nat \<Rightarrow> string" where
  "quote_byte b = (if always_safe b then [char_of b] else percent_byte b)"

definition quote :: "string \<Rightarrow> string" where
  \<comment> \<open>\<open>urllib.parse.quote(s, safe='')\<close> for a \<open>str\<close> argument over the code points
      0..255; every such string has a UTF-8 encoding, so the call does not raise (a lone
      surrogate, on which it would, lies outside this range)\<close>
  "quote s = concat (map quote_byte (concat (map utf8_encode_char s)))"

section \<open>Transport-mode normalization\<close>

text \<open>
  \<open>RouteRetriever.detect_transportation_mode\<close>.  The source also evaluates
  \<open>transportation_mode.strip()\<close> and discards the result; that statement has no effect.
\<close>

definition detect_transportation_mode :: "string \<Rightarrow> string" where
  "detect_transportation_mode transportation_mode =
     (let transportation_mode = lower transportation_mode
      in if contains transportation_mode ''foot'' \<or> contains transportation_mode ''walk''
         then ''Walking''
         else if contains transportation_mode ''cycle''
         then ''bicycle''
         else if contains transportation_mode ''public'' \<or> contains transportation_mode ''bus''
                 \<or> contains transportation_mode ''train''
                 \<or> contains transportation_mode ''transit''
         then ''Transit''
         else ''Driving'')"

definition ci_occurs :: "string \<Rightarrow> string \<Rightarrow> bool" where
  \<comment> \<open>The specification's case-insensitive keyword match: some contiguous part of \<open>s\<close>
      equals the (lower-case) keyword once its letters are folded to lower case.\<close>
  "ci_occurs kw s = (\<exists>pre mid post. s = pre @ mid @ post \<and> lower mid = kw)"

section \<open>Python values, exceptions and the outside world\<close>

text \<open>
  The objects the tools exchange: JSON documents, tool inputs and tool envelopes.  Floats
  are never computed with, so their type \<open>'f\<close> is left open.  A dictionary keeps its
  insertion order, as Python's does; its keys are strings.
\<close>

datatype 'f pyval =
    PNone
  | PBool bool
  | PInt int
  | PFloat 'f
  | PStr string
  | PList "'f pyval list"
  | PDict "(string \<times> 'f pyval) list"

datatype py_error =
    PyException string
  | ValueError string
  | ConnectionError py_error
  | TypeError
  | KeyError string
  | IndexError
  | AttributeError
  | External string

text \<open>
  \<open>PyException m\<close> is \<open>Exception(m)\<close>; \<open>ConnectionError e\<close> is the exception
  \<open>get_route\<close> builds from the cause \<open>e\<close>, whose text it embeds in its message;
  \<open>External\<close> is whatever a library call or a provider raises.
\<close>

definition then_do :: "py_error + 'a \<Rightarrow> ('a \<Rightarrow> py_error + 'b) \<Rightarrow> py_error + 'b" where
  \<comment> \<open>sequencing of two steps, the first of which may raise\<close>
  "then_do r f = (case r of Inl e \<Rightarrow> Inl e | Inr x \<Rightarrow> f x)"

fun map_raise :: "('a \<Rightarrow> py_error + 'b) \<Rightarrow> 'a list \<Rightarrow> py_error + 'b list" where
  \<comment> \<open>a comprehension whose element expression may raise: the first exception ends it\<close>
  "map_raise f [] = Inr []"
| "map_raise f (x # xs) =
     (case f x of
        Inl e \<Rightarrow> Inl e
      | Inr y \<Rightarrow> (case map_raise f xs of Inl e \<Rightarrow> Inl e | Inr ys \<Rightarrow> Inr (y # ys)))"

definition dict_get :: "(string \<times> 'a) list \<Rightarrow> string \<Rightarrow> 'a \<Rightarrow> 'a" where
  \<comment> \<open>\<open>d.get(k, default)\<close>\<close>
  "dict_get d k dflt = (case map_of d k of None \<Rightarrow> dflt | Some v \<Rightarrow> v)"

fun dict_set :: "(string \<times> 'a) list \<Rightarrow> string \<Rightarrow> 'a \<Rightarrow> (string \<times> 'a) list" where
  \<comment> \<open>\<open>d[k] = v\<close>: an existing key keeps its place, a new one goes last\<close>
  "dict_set [] k v = [(k, v)]"
| "dict_set ((k', v') # d) k v =
     (if k' = k then (k, v) # d else (k', v') # dict_set d k v)"

fun py_get :: "'f pyval \<Rightarrow> string \<Rightarrow> 'f pyval \<Rightarrow> py_error + 'f pyval" where
  \<comment> \<open>\<open>obj.get(k, default)\<close>: only a dictionary has the method\<close>
  "py_get (PDict d) k dflt = Inr (dict_get d k dflt)"
| "py_get _ k dflt = Inl AttributeError"

fun getitem_key :: "'f pyval \<Rightarrow> string \<Rightarrow> py_error + 'f pyval" where
  \<comment> \<open>\<open>obj[k]\<close> for a string \<open>k\<close>\<close>
  "getitem_key (PDict d) k = (case map_of d k of None \<Rightarrow> Inl (KeyError k) | Some v \<Rightarrow> Inr v)"
| "getitem_key _ k = Inl TypeError"

fun getitem_first :: "'f pyval \<Rightarrow> py_error + 'f pyval" where
  \<comment> \<open>\<open>obj[0]\<close>: a dictionary with string keys has no key 0\<close>
  "getitem_first (PList []) = Inl IndexError"
| "getitem_first (PList (x # xs)) = Inr x"
| "getitem_first (PStr []) = Inl IndexError"
| "getitem_first (PStr (c # cs)) = Inr (PStr [c])"
| "getitem_first (PDict d) = Inl (KeyError ''0'')"
| "getitem_first _ = Inl TypeError"

fun py_iter :: "'f pyval \<Rightarrow> py_error + 'f pyval list" where
  \<comment> \<open>the elements a \<open>for\<close> loop visits: a string gives its characters, a dictionary
      its keys\<close>
  "py_iter (PList xs) = Inr xs"
| "py_iter (PStr s) = Inr (map (\<lambda>c. PStr [c]) s)"
| "py_iter (PDict d) = Inr (map (\<lambda>kv. PStr (fst kv)) d)"
| "py_iter _ = Inl TypeError"

fun as_str :: "'f pyval \<Rightarrow> py_error + string" where
  \<comment> \<open>an operand that has to be a \<open>str\<close> (of \<open>+\<close> with a string, of \<open>join\<close>)\<close>
  "as_str (PStr s) = Inr s"
| "as_str _ = Inl TypeError"

fun py_copy :: "'f pyval \<Rightarrow> py_error + 'f pyval" where
  \<comment> \<open>\<open>obj.copy()\<close>: lists and dictionaries have the method, the other values do not\<close>
  "py_copy (PList xs) = Inr (PList xs)"
| "py_copy (PDict d) = Inr (PDict d)"
| "py_copy _ = Inl AttributeError"

fun format1 :: "string \<Rightarrow> string \<Rightarrow> string" where
  \<comment> \<open>\<open>template.format(a)\<close> for a template with one field \<open>{}\<close> and no other brace\<close>
  "format1 [] a = []"
| "format1 [c] a = [c]"
| "format1 (c # d # cs) a =
     (if c = CHR ''{'' \<and> d = CHR ''}'' then a @ cs else c # format1 (d # cs) a)"

record 'f location =
  latitude :: 'f
  longitude :: 'f

record 'f http_request =
  url :: string
  headers :: "(string \<times> string) list"
  params :: "(string \<times> 'f pyval) list"

record 'f http_response =
  status_code :: int
  json :: "py_error + 'f pyval"

text \<open>
  What the program reaches outside itself: the process environment, the rate-limited
  geocoder (\<open>None\<close> when nothing is found), \<open>requests.get\<close>, the route request
  (\<open>urlopen\<close>, \<open>read\<close>, \<open>decode\<close> and \<open>json.loads\<close> together), \<open>ast.literal_eval\<close>,
  Python's \<open>str()\<close> of a value that is not a string, and the callback base class's
  \<open>on_tool_end\<close>.
\<close>

record 'f world =
  environ :: "string \<Rightarrow> string option"
  geocoder :: "string \<Rightarrow> py_error + 'f location option"
  requests_get :: "'f http_request \<Rightarrow> py_error + 'f http_response"
  urlopen_json :: "string \<Rightarrow> py_error + 'f pyval"
  literal_eval :: "string \<Rightarrow> py_error + 'f pyval"
  str_of :: "'f pyval \<Rightarrow> string"
  base_on_tool_end :: "'f pyval \<Rightarrow> 'f pyval"

datatype 'f request =
    Geocode string
  | HttpGet "'f http_request"
  | UrlOpen string

text \<open>
  Every tool function returns the outbound requests it made, in order, next to its result.
  Console output (\<open>print\<close>) is not modelled.
\<close>

definition py_str :: "'f world \<Rightarrow> 'f pyval \<Rightarrow> string" where
  "py_str w v = (case v of PStr s \<Rightarrow> s | _ \<Rightarrow> str_of w v)"

section \<open>chatTools: geocoder and places of interest\<close>

definition RADIUS :: int where
  "RADIUS = 100000"

definition FSQ_PLACE_SEARCH_URL :: string where
  "FSQ_PLACE_SEARCH_URL = ''https://api.foursquare.com/v3/places/search''"

definition FSQ_PLACE_INFO_URL :: string where
  "FSQ_PLACE_INFO_URL = ''https://api.foursquare.com/v3/places/{}/tips''"

definition ROUTE_URL :: string where
  "ROUTE_URL = ''http://dev.virtualearth.net/REST/V1/Routes/{}?''"

definition location_query :: "string \<Rightarrow> string" where
  \<comment> \<open>the first three lines of \<open>get_location_data\<close>\<close>
  "location_query location =
     (if startswith location ''location=''
      then strip (drop (length ''location='') location)
      else location)"

definition get_location_data ::
  "'f world \<Rightarrow> string \<Rightarrow> 'f request list \<times> (py_error + 'f location)" where
  "get_location_data w location =
     (let location = location_query location
      in ([Geocode location],
          case geocoder w location of
            Inl exc \<Rightarrow> Inl exc
          | Inr None \<Rightarrow> Inl (PyException ''Location not found. Please refine your query.'')
          | Inr (Some location_details) \<Rightarrow> Inr location_details))"

definition get_fsq_info_of_location ::
  "'f world \<Rightarrow> 'f pyval \<Rightarrow> 'f pyval \<Rightarrow> 'f request list \<times> string option" where
  \<comment> \<open>every exception is caught and printed; the function then returns \<open>None\<close>\<close>
  "get_fsq_info_of_location w name fsq_id =
     (let url = format1 FSQ_PLACE_INFO_URL (py_str w fsq_id)
      in case environ w ''FSQ_API_KEY'' of
           None \<Rightarrow> ([], None)
         | Some fsq_api_key \<Rightarrow>
             (let req = \<lparr>url = url,
                        headers = [(''accept'', ''application/json''),
                                   (''Authorization'', fsq_api_key)],
                        params = [(''sort'', PStr ''POPULAR''), (''limit'', PInt 2)]\<rparr>
              in ([HttpGet req],
                  case requests_get w req of
                    Inl e \<Rightarrow> None
                  | Inr response \<Rightarrow>
                      if status_code response \<noteq> 200 then None
                      else (case then_do (json response) (\<lambda>tips.
                                 then_do (as_str name) (\<lambda>n.
                                 then_do (py_iter tips) (\<lambda>ts.
                                 then_do (map_raise (\<lambda>tip. getitem_key tip ''text'') ts) (\<lambda>texts.
                                 then_do (map_raise as_str texts) (\<lambda>strs.
                                 Inr (n @ '': '' @ py_join '' '' strs)))))) of
                              Inl e \<Rightarrow> None
                            | Inr description \<Rightarrow> Some description))))"

fun describe_places ::
  "'f world \<Rightarrow> 'f pyval list \<Rightarrow> 'f request list \<times> (py_error + string option list)" where
  \<comment> \<open>the generator \<open>get_fsq_info_of_location(place['name'], place['fsq_id']) for place in
      places\<close>, consumed to its end or to the first exception\<close>
  "describe_places w [] = ([], Inr [])"
| "describe_places w (place # places) =
     (case getitem_key place ''name'' of
        Inl e \<Rightarrow> ([], Inl e)
      | Inr name \<Rightarrow>
          (case getitem_key place ''fsq_id'' of
             Inl e \<Rightarrow> ([], Inl e)
           | Inr fsq_id \<Rightarrow>
               (let first = get_fsq_info_of_location w name fsq_id;
                    rest = describe_places w places
                in (fst first @ fst rest,
                    case snd rest of
                      Inl e \<Rightarrow> Inl e
                    | Inr ds \<Rightarrow> Inr (snd first # ds)))))"

fun join_descriptions :: "string option list \<Rightarrow> py_error + string list" where
  \<comment> \<open>\<open>join\<close> accepts strings only: a \<open>None\<close> among the descriptions is a TypeError\<close>
  "join_descriptions [] = Inr []"
| "join_descriptions (None # ds) = Inl TypeError"
| "join_descriptions (Some d # ds) =
     (case join_descriptions ds of Inl e \<Rightarrow> Inl e | Inr ss \<Rightarrow> Inr (d # ss))"

definition places_search_request :: "'f world \<Rightarrow> string \<Rightarrow> 'f \<Rightarrow> 'f \<Rightarrow> int \<Rightarrow> 'f http_request" where
  \<comment> \<open>\<open>url\<close>, \<open>headers\<close> and \<open>params\<close> of the search request\<close>
  "places_search_request w fsq_api_key lat lon radius =
     \<lparr>url = FSQ_PLACE_SEARCH_URL,
      headers = [(''accept'', ''application/json''), (''Authorization'', fsq_api_key)],
      params = [(''ll'', PStr (py_str w (PFloat lat) @ '','' @ py_str w (PFloat lon))),
                (''radius'', PInt radius),
                (''sort'', PStr ''RELEVANCE''),
                (''limit'', PInt 10)]\<rparr>"

definition get_places_of_interests ::
  "'f world \<Rightarrow> 'f \<Rightarrow> 'f \<Rightarrow> int \<Rightarrow> 'f request list \<times> string option" where
  \<comment> \<open>the whole body is inside \<open>try\<close>; the handler prints the exception, and the function
      falls off its end, returning \<open>None\<close>\<close>
  "get_places_of_interests w lat lon radius =
     (case environ w ''FSQ_API_KEY'' of
        None \<Rightarrow> ([], None)
      | Some fsq_api_key \<Rightarrow>
          (let req = places_search_request w fsq_api_key lat lon radius
           in case requests_get w req of
                Inl e \<Rightarrow> ([HttpGet req], None)
              | Inr response \<Rightarrow>
                  if status_code response \<noteq> 200 then ([HttpGet req], None)
                  else (case then_do (json response) (\<lambda>body.
                             then_do (getitem_key body ''results'') py_iter) of
                          Inl e \<Rightarrow> ([HttpGet req], None)
                        | Inr places \<Rightarrow>
                            (let r = describe_places w places
                             in (HttpGet req # fst r,
                                 case then_do (snd r) join_descriptions of
                                   Inl e \<Rightarrow> None
                                 | Inr ds \<Rightarrow> Some (py_join [CHR 0x0A] ds))))))"

definition PlacesOfInterestTool_run ::
  "'f world \<Rightarrow> string \<Rightarrow> 'f request list \<times> (py_error + 'f pyval)" where
  \<comment> \<open>\<open>PlacesOfInterestTool._run\<close>\<close>
  "PlacesOfInterestTool_run w location =
     (case get_location_data w location of
        (tr, Inl e) \<Rightarrow> (tr, Inl e)
      | (tr, Inr location_data) \<Rightarrow>
          (let r = get_places_of_interests w (latitude location_data) (longitude location_data)
                     RADIUS
           in (tr @ fst r,
               Inr (PDict [(''output'', case snd r of None \<Rightarrow> PNone | Some s \<Rightarrow> PStr s)]))))"

section \<open>chatTools: the route tool\<close>

fun quote_location :: "'f pyval \<Rightarrow> py_error + string" where
  \<comment> \<open>\<open>urllib.parse.quote(loc, safe='')\<close>: a value that is neither \<open>str\<close> nor bytes is
      a TypeError\<close>
  "quote_location (PStr s) = Inr (quote s)"
| "quote_location _ = Inl TypeError"

fun add_waypoints :: "nat \<Rightarrow> 'f pyval list \<Rightarrow> string \<Rightarrow> py_error + string" where
  \<comment> \<open>the loop \<open>for i, loc in enumerate(locations)\<close>, from index \<open>i\<close> on\<close>
  "add_waypoints i [] route_url = Inr route_url"
| "add_waypoints i (loc # locs) route_url =
     (case quote_location loc of
        Inl e \<Rightarrow> Inl e
      | Inr encoded_location \<Rightarrow>
          add_waypoints (Suc i) locs
            (if i = 0
             then route_url @ ''wp.'' @ str_nat i @ ''='' @ encoded_location
             else route_url @ ''&wp.'' @ str_nat i @ ''='' @ encoded_location))"

definition itinerary_items :: "'f pyval \<Rightarrow> py_error + 'f pyval" where
  \<comment> \<open>\<open>result["resourceSets"][0]["resources"][0]["routeLegs"][0]["itineraryItems"]\<close>\<close>
  "itinerary_items result =
     then_do (getitem_key result ''resourceSets'') (\<lambda>a.
     then_do (getitem_first a) (\<lambda>b.
     then_do (getitem_key b ''resources'') (\<lambda>c.
     then_do (getitem_first c) (\<lambda>d.
     then_do (getitem_key d ''routeLegs'') (\<lambda>e.
     then_do (getitem_first e) (\<lambda>f.
     getitem_key f ''itineraryItems''))))))"

definition step_direction :: "'f pyval \<Rightarrow> py_error + string" where
  \<comment> \<open>\<open>'- ' + item["instruction"]["text"]\<close>\<close>
  "step_direction item =
     then_do (getitem_key item ''instruction'') (\<lambda>ins.
     then_do (getitem_key ins ''text'') (\<lambda>t.
     then_do (as_str t) (\<lambda>text. Inr (''- '' @ text))))"

definition step_point :: "'f pyval \<Rightarrow> py_error + 'f pyval" where
  \<comment> \<open>\<open>item["maneuverPoint"]["coordinates"]\<close>\<close>
  "step_point item =
     then_do (getitem_key item ''maneuverPoint'') (\<lambda>m. getitem_key m ''coordinates'')"

fun itinerary_loop ::
  "'f pyval list \<Rightarrow> string list \<Rightarrow> 'f pyval list \<Rightarrow> py_error + string list \<times> 'f pyval list"
where
  \<comment> \<open>the loop \<open>for item in itinerary_items\<close> with its two accumulators\<close>
  "itinerary_loop [] directions geocode_points = Inr (directions, geocode_points)"
| "itinerary_loop (item # items) directions geocode_points =
     (case step_direction item of
        Inl e \<Rightarrow> Inl e
      | Inr direction \<Rightarrow>
          (case step_point item of
             Inl e \<Rightarrow> Inl e
           | Inr point \<Rightarrow>
               itinerary_loop items (directions @ [direction]) (geocode_points @ [point])))"

definition route_steps :: "'f world \<Rightarrow> string \<Rightarrow> py_error + string list \<times> 'f pyval list" where
  \<comment> \<open>the body of the \<open>try\<close> block up to the end of the loop: the two lists
      \<open>directions\<close> and \<open>geocode_points\<close>\<close>
  "route_steps w route_url =
     then_do (urlopen_json w route_url) (\<lambda>result.
     then_do (itinerary_items result) (\<lambda>items.
     then_do (py_iter items) (\<lambda>its. itinerary_loop its [] [])))"

definition get_route ::
  "'f world \<Rightarrow> 'f pyval \<Rightarrow> string \<Rightarrow> 'f request list \<times> (py_error + 'f pyval)" where
  "get_route w locations mode =
     (case environ w ''BING_API_KEY'' of
        None \<Rightarrow> ([], Inl (ValueError ''Bing API key must be set in environment variables.''))
      | Some bing_maps_key \<Rightarrow>
          if bing_maps_key = []
          then ([], Inl (ValueError ''Bing API key must be set in environment variables.''))
          else (case then_do (py_iter locations) (\<lambda>locs.
                       add_waypoints 0 locs (format1 ROUTE_URL mode)) of
                  Inl e \<Rightarrow> ([], Inl e)
                | Inr url_wp \<Rightarrow>
                    (let route_url = url_wp @ ''&key='' @ bing_maps_key
                     in ([UrlOpen route_url],
                         case route_steps w route_url of
                           Inl e \<Rightarrow> Inl (ConnectionError e)
                         | Inr (directions, geocode_points) \<Rightarrow>
                             Inr (PDict [(''output'', PStr (py_join [CHR 0x0A] directions)),
                                         (''geocode_points'', PList geocode_points)])))))"

definition RouteRetriever_run ::
  "'f world \<Rightarrow> 'f pyval \<Rightarrow> 'f request list \<times> (py_error + 'f pyval)" where
  \<comment> \<open>\<open>RouteRetriever._run\<close>; \<open>lower\<close> is a method of \<open>str\<close> only\<close>
  "RouteRetriever_run w input_data =
     (case (case input_data of PStr s \<Rightarrow> literal_eval w s | _ \<Rightarrow> Inr input_data) of
        Inl e \<Rightarrow> ([], Inl e)
      | Inr input_data \<Rightarrow>
          (case py_get input_data ''transportation_mode'' (PStr ''car'') of
             Inl e \<Rightarrow> ([], Inl e)
           | Inr (PStr transportation_mode) \<Rightarrow>
               (let mode = detect_transportation_mode transportation_mode
                in case py_get input_data ''locations'' (PList [PStr '''']) of
                     Inl e \<Rightarrow> ([], Inl e)
                   | Inr locations \<Rightarrow> get_route w locations mode)
           | Inr _ \<Rightarrow> ([], Inl AttributeError)))"

section \<open>chatCallback: the tool-completion interceptor\<close>

text \<open>
  \<open>SimpleCallback.on_tool_end\<close> works on two objects it shares with its caller: the
  session's message list and the tool's output.  The model returns both as they are after
  the call, and the value the method returns (or the exception it raises).
\<close>

definition on_tool_end ::
  "'f world \<Rightarrow> 'f pyval list \<Rightarrow> 'f pyval \<Rightarrow> 'f pyval list \<times> 'f pyval \<times> (py_error + 'f pyval)"
where
  "on_tool_end w messages output =
     (case output of
        PDict d \<Rightarrow>
          (case dict_get d ''geocode_points'' PNone of
             PNone \<Rightarrow> (messages, output, Inr (base_on_tool_end w output))
           | points \<Rightarrow>
               (case py_copy points of
                  Inl e \<Rightarrow> (messages, output, Inl e)
                | Inr copied \<Rightarrow>
                    (let geocode_points = PDict [(''geocode_points'', copied)];
                         output' = PDict (dict_set d ''geocode_points'' (PStr ''''))
                     in (messages @ [geocode_points], output', Inr output'))))
      | _ \<Rightarrow> (messages, output, Inr (base_on_tool_end w output)))"

section \<open>Sample inputs\<close>

text \<open>
  A small outside world on which the functions can be run: both credentials are set, the
  geocoder knows one place, the places provider answers every request with status 500, and
  the routing provider knows one URL, for which it answers with a route of two steps.
\<close>

definition sample_route_json :: "rat pyval" where
  "sample_route_json =
     PDict [(''resourceSets'', PList [PDict [(''resources'', PList [PDict [(''routeLegs'',
       PList [PDict [(''itineraryItems'', PList
         [PDict [(''instruction'', PDict [(''text'', PStr ''Head north'')]),
                 (''maneuverPoint'', PDict [(''coordinates'', PList [PFloat (19/2), PFloat 72])])],
          PDict [(''instruction'', PDict [(''text'', PStr ''Arrive'')]),
                 (''maneuverPoint'', PDict [(''coordinates'', PList [PFloat 18, PFloat (147/2)])])]
         ])]])]])]])]"

definition sample_world :: "rat world" where
  "sample_world =
     \<lparr>environ = map_of [(''BING_API_KEY'', ''K''), (''FSQ_API_KEY'', ''F'')],
      geocoder = (\<lambda>q. if q = ''Paris'' then Inr (Some \<lparr>latitude = 48, longitude = 2\<rparr>)
                       else Inr None),
      requests_get = (\<lambda>req. Inr \<lparr>status_code = 500, json = Inl (External ''no body'')\<rparr>),
      urlopen_json =
        (\<lambda>u. if u = ''http://dev.virtualearth.net/REST/V1/Routes/bicycle?wp.0=Mumbai&wp.1=Pune&key=K''
             then Inr sample_route_json
             else Inl (External ''HTTP Error 404: Not Found'')),
      literal_eval = (\<lambda>s. Inl (External ''malformed node or string'')),
      str_of = (\<lambda>v. ''?''),
      base_on_tool_end = (\<lambda>v. PNone)\<rparr>"

definition sample_world_no_fsq :: "rat world" where
  \<comment> \<open>the same world with \<open>FSQ_API_KEY\<close> unset\<close>
  "sample_world_no_fsq = sample_world\<lparr>environ := map_of [(''BING_API_KEY'', ''K'')]\<rparr>"

section \<open>Predicates of the specification\<close>

fun error_carries :: "py_error \<Rightarrow> string \<Rightarrow> bool" where
  \<comment> \<open>the exception's text contains the string \<open>q\<close>\<close>
  "error_carries (PyException m) q = contains m q"
| "error_carries (ValueError m) q = contains m q"
| "error_carries (ConnectionError e) q = error_carries e q"
| "error_carries (KeyError k) q = contains k q"
| "error_carries (External m) q = contains m q"
| "error_carries _ q = False"

definition waypoint_params :: "string list \<Rightarrow> string list" where
  \<comment> \<open>the query parameters \<open>wp.0=...\<close>, \<open>wp.1=...\<close> for a list of locations, in order\<close>
  "waypoint_params locs =
     map (\<lambda>il. ''wp.'' @ str_nat (fst il) @ ''='' @ quote (snd il)) (enumerate 0 locs)"

section \<open>Facts about the string functions\<close>

lemma startswith_prefix: "startswith s p \<longleftrightarrow> (\<exists>post. s = p @ post)"
  by (induction s p rule: startswith.induct) auto

lemma contains_iff: "contains s sub \<longleftrightarrow> (\<exists>pre post. s = pre @ sub @ post)"
proof (induction s)
  case Nil
  then show ?case by auto
next
  case (Cons c cs)
  show ?case
  proof
    assume "contains (c # cs) sub"
    then consider "startswith (c # cs) sub" | "contains cs sub" by auto
    then show "\<exists>pre post. c # cs = pre @ sub @ post"
    proof cases
      case 1
      then obtain post where "c # cs = sub @ post" by (auto simp: startswith_prefix)
      then have "c # cs = [] @ sub @ post" by simp
      then show ?thesis by blast
    next
      case 2
      then obtain pre post where "cs = pre @ sub @ post" using Cons.IH by blast
      then have "c # cs = (c # pre) @ sub @ post" by simp
      then show ?thesis by blast
    qed
  next
    assume "\<exists>pre post. c # cs = pre @ sub @ post"
    then obtain pre post where e: "c # cs = pre @ sub @ post" by blast
    show "contains (c # cs) sub"
    proof (cases pre)
      case Nil
      with e have "startswith (c # cs) sub" by (auto simp: startswith_prefix)
      then show ?thesis by simp
    next
      case (Cons a pre')
      with e have "cs = pre' @ sub @ post" by simp
      then have "contains cs sub" using Cons.IH by blast
      then show ?thesis by simp
    qed
  qed
qed

lemma map_split:
  "map f s = a @ b \<Longrightarrow> \<exists>us vs. s = us @ vs \<and> map f us = a \<and> map f vs = b"
  by (metis append_eq_map_conv)

lemma contains_lower_iff: "contains (lower s) kw \<longleftrightarrow> ci_occurs kw s"
proof
  assume "contains (lower s) kw"
  then obtain a b where "map py_lower_char s = a @ (kw @ b)"
    by (auto simp: contains_iff lower_def)
  from map_split [OF this] obtain pre r
    where s: "s = pre @ r" and r: "map py_lower_char r = kw @ b"
    by blast
  from map_split [OF r] obtain mid post
    where "r = mid @ post" and "map py_lower_char mid = kw"
    by blast
  with s show "ci_occurs kw s" unfolding ci_occurs_def lower_def by blast
next
  assume "ci_occurs kw s"
  then obtain pre mid post where "s = pre @ mid @ post" and "lower mid = kw"
    unfolding ci_occurs_def by blast
  then have "lower s = lower pre @ kw @ lower post" by (simp add: lower_def)
  then show "contains (lower s) kw" unfolding contains_iff by blast
qed

lemma strip_decompose:
  "\<exists>pre post. s = pre @ strip s @ post \<and> list_all py_isspace pre \<and> list_all py_isspace post"
proof -
  let ?t = "dropWhile py_isspace s"
  have a: "s = takeWhile py_isspace s @ ?t" by simp
  have b: "rev ?t = takeWhile py_isspace (rev ?t) @ dropWhile py_isspace (rev ?t)" by simp
  have "?t = rev (rev ?t)" by simp
  also have "\<dots> = rev (dropWhile py_isspace (rev ?t)) @ rev (takeWhile py_isspace (rev ?t))"
    by (subst b) (simp only: rev_append)
  finally have c: "?t = strip s @ rev (takeWhile py_isspace (rev ?t))"
    by (simp add: strip_def)
  have d: "list_all py_isspace (takeWhile py_isspace s)"
    by (simp add: list_all_iff) (meson set_takeWhileD)
  have e: "list_all py_isspace (rev (takeWhile py_isspace (rev ?t)))"
    by (simp add: list_all_iff) (meson set_takeWhileD)
  from a c have "s = takeWhile py_isspace s @ strip s @ rev (takeWhile py_isspace (rev ?t))"
    by simp
  with d e show ?thesis by blast
qed

lemma strip_ends:
  "strip s = [] \<or> (\<not> py_isspace (hd (strip s)) \<and> \<not> py_isspace (last (strip s)))"
proof (cases "strip s = []")
  case True
  then show ?thesis by simp
next
  case False
  let ?t = "dropWhile py_isspace s"
  let ?u = "dropWhile py_isspace (rev ?t)"
  from False have u: "?u \<noteq> []" by (simp add: strip_def)
  then have "\<not> py_isspace (hd ?u)" by (rule hd_dropWhile)
  then have l: "\<not> py_isspace (last (strip s))"
    using u by (simp add: strip_def last_rev)
  from u have t: "?t \<noteq> []" by (cases "?t = []") simp_all
  then have ht: "\<not> py_isspace (hd ?t)" by (rule hd_dropWhile)
  obtain ws where ws: "rev ?t = ws @ ?u"
    by (metis takeWhile_dropWhile_id)
  then have "?t = rev ?u @ rev ws" by (metis rev_append rev_rev_ident)
  then have "hd ?t = hd (rev ?u)" using u by (metis hd_append2 rev_is_Nil_conv)
  with ht have "\<not> py_isspace (hd (strip s))" by (simp add: strip_def)
  with l show ?thesis by simp
qed

section \<open>Transport-mode normalization: the keyword match\<close>

text \<open>
  C4.  \<open>detect_transportation_mode\<close> is a case-insensitive keyword match evaluated in a fixed
  order: a string in which "foot" or "walk" occurs gives Walking; otherwise one in which
  "cycle" occurs gives bicycle; otherwise one in which "public", "bus", "train" or "transit"
  occurs gives Transit; every other string, the empty one included, gives Driving.  The five
  examples of the specification evaluate as it says.
\<close>

theorem detect_transportation_mode_priority:
  "detect_transportation_mode s =
     (if ci_occurs ''foot'' s \<or> ci_occurs ''walk'' s then ''Walking''
      else if ci_occurs ''cycle'' s then ''bicycle''
      else if ci_occurs ''public'' s \<or> ci_occurs ''bus'' s \<or> ci_occurs ''train'' s
              \<or> ci_occurs ''transit'' s then ''Transit''
      else ''Driving'')
   \<and> detect_transportation_mode ''I want to WALK there'' = ''Walking''
   \<and> detect_transportation_mode ''by bicycle'' = ''bicycle''
   \<and> detect_transportation_mode ''take the bus'' = ''Transit''
   \<and> detect_transportation_mode ''drive'' = ''Driving''
   \<and> detect_transportation_mode '''' = ''Driving''"
proof (intro conjI)
  show "detect_transportation_mode s =
     (if ci_occurs ''foot'' s \<or> ci_occurs ''walk'' s then ''Walking''
      else if ci_occurs ''cycle'' s then ''bicycle''
      else if ci_occurs ''public'' s \<or> ci_occurs ''bus'' s \<or> ci_occurs ''train'' s
              \<or> ci_occurs ''transit'' s then ''Transit''
      else ''Driving'')"
    unfolding detect_transportation_mode_def Let_def contains_lower_iff by (rule refl)
  show "detect_transportation_mode ''I want to WALK there'' = ''Walking''" by code_simp
  show "detect_transportation_mode ''by bicycle'' = ''bicycle''" by code_simp
  show "detect_transportation_mode ''take the bus'' = ''Transit''" by code_simp
  show "detect_transportation_mode ''drive'' = ''Driving''" by code_simp
  show "detect_transportation_mode '''' = ''Driving''" by code_simp
qed

section \<open>Geocoder: the query that reaches the provider\<close>

text \<open>
  C10.  A query that begins with \<open>location=\<close> reaches the geocoding provider as the rest of
  the string with its leading and trailing whitespace removed; a query without that prefix
  reaches the provider as it is, whitespace included.  In both cases the provider is asked
  once, with that string, and its answer for that string decides the result.
\<close>

theorem get_location_data_strips_only_after_prefix:
  "(startswith q ''location='' \<longrightarrow>
      q = ''location='' @ drop 9 q
      \<and> get_location_data w q
          = ([Geocode (strip (drop 9 q))],
             case geocoder w (strip (drop 9 q)) of
               Inl exc \<Rightarrow> Inl exc
             | Inr None \<Rightarrow> Inl (PyException ''Location not found. Please refine your query.'')
             | Inr (Some location_details) \<Rightarrow> Inr location_details)
      \<and> fst (get_location_data w q) = [Geocode (strip (drop 9 q))]
      \<and> (\<exists>pre post. drop 9 q = pre @ strip (drop 9 q) @ post
            \<and> list_all py_isspace pre \<and> list_all py_isspace post)
      \<and> (strip (drop 9 q) = []
           \<or> (\<not> py_isspace (hd (strip (drop 9 q))) \<and> \<not> py_isspace (last (strip (drop 9 q))))))
   \<and> (\<not> startswith q ''location='' \<longrightarrow>
        get_location_data w q
          = ([Geocode q],
             case geocoder w q of
               Inl exc \<Rightarrow> Inl exc
             | Inr None \<Rightarrow> Inl (PyException ''Location not found. Please refine your query.'')
             | Inr (Some location_details) \<Rightarrow> Inr location_details)
      \<and> fst (get_location_data w q) = [Geocode q])"
proof (intro conjI impI)
  assume p: "startswith q ''location=''"
  then obtain r where "q = ''location='' @ r" unfolding startswith_prefix by blast
  then show "q = ''location='' @ drop 9 q" by simp
  have nine: "length ''location='' = 9" by simp
  from p show "get_location_data w q
          = ([Geocode (strip (drop 9 q))],
             case geocoder w (strip (drop 9 q)) of
               Inl exc \<Rightarrow> Inl exc
             | Inr None \<Rightarrow> Inl (PyException ''Location not found. Please refine your query.'')
             | Inr (Some location_details) \<Rightarrow> Inr location_details)"
    unfolding get_location_data_def location_query_def Let_def nine by simp
  from p show "fst (get_location_data w q) = [Geocode (strip (drop 9 q))]"
    unfolding get_location_data_def location_query_def Let_def nine by simp
  show "\<exists>pre post. drop 9 q = pre @ strip (drop 9 q) @ post
          \<and> list_all py_isspace pre \<and> list_all py_isspace post"
    by (rule strip_decompose)
  show "strip (drop 9 q) = []
          \<or> (\<not> py_isspace (hd (strip (drop 9 q))) \<and> \<not> py_isspace (last (strip (drop 9 q))))"
    by (rule strip_ends)
next
  assume n: "\<not> startswith q ''location=''"
  then show "get_location_data w q
          = ([Geocode q],
             case geocoder w q of
               Inl exc \<Rightarrow> Inl exc
             | Inr None \<Rightarrow> Inl (PyException ''Location not found. Please refine your query.'')
             | Inr (Some location_details) \<Rightarrow> Inr location_details)"
    by (simp add: get_location_data_def location_query_def Let_def)
  from n show "fst (get_location_data w q) = [Geocode q]"
    by (simp add: get_location_data_def location_query_def Let_def)
qed

text \<open>
  On the sample world the geocoder knows \<open>Paris\<close> only: the prefixed query with blanks
  around the name is resolved, the bare query with the same blanks is not.
\<close>

theorem get_location_data_strips_only_after_prefix_witness:
  "get_location_data sample_world (''location=  Paris '' @ [CHR 0x0A])
     = ([Geocode ''Paris''], Inr \<lparr>latitude = 48, longitude = 2\<rparr>)
   \<and> get_location_data sample_world '' Paris ''
     = ([Geocode '' Paris ''],
        Inl (PyException ''Location not found. Please refine your query.''))"
proof -
  have a: "startswith (''location=  Paris '' @ [CHR 0x0A]) ''location=''" by simp
  have b: "strip (drop 9 (''location=  Paris '' @ [CHR 0x0A])) = ''Paris''" by code_simp
  have c: "\<not> startswith '' Paris '' ''location=''" by simp
  have g1: "geocoder sample_world ''Paris'' = Inr (Some \<lparr>latitude = 48, longitude = 2\<rparr>)"
    by (simp add: sample_world_def)
  have g2: "geocoder sample_world '' Paris '' = Inr None"
    by (simp add: sample_world_def)
  note T1 = get_location_data_strips_only_after_prefix
              [of "''location=  Paris '' @ [CHR 0x0A]" sample_world]
  from T1 [THEN conjunct1, THEN mp, OF a, THEN conjunct2, THEN conjunct1]
  have 1: "get_location_data sample_world (''location=  Paris '' @ [CHR 0x0A])
             = ([Geocode ''Paris''], Inr \<lparr>latitude = 48, longitude = 2\<rparr>)"
    unfolding b g1 by simp
  note T2 = get_location_data_strips_only_after_prefix [of "'' Paris ''" sample_world]
  from T2 [THEN conjunct2, THEN mp, OF c, THEN conjunct1]
  have 2: "get_location_data sample_world '' Paris ''
             = ([Geocode '' Paris ''],
                Inl (PyException ''Location not found. Please refine your query.''))"
    unfolding g2 by simp
  from 1 2 show ?thesis by (rule conjI)
qed

section \<open>The interceptor\<close>

lemma map_of_dict_set: "map_of (dict_set d k v) = (map_of d)(k \<mapsto> v)"
  by (induction d) (auto simp: fun_eq_iff)

text \<open>
  C1.  When the tool's output is a dictionary whose \<open>geocode_points\<close> is a non-empty list,
  one call of \<open>on_tool_end\<close> appends exactly one record, holding a copy of that list, to the
  session's messages, and returns the output with \<open>geocode_points\<close> replaced by the empty
  string; the \<open>output\<close> text and every other field are as before.
\<close>

theorem on_tool_end_moves_points:
  assumes "map_of d ''geocode_points'' = Some (PList pts)" and "pts \<noteq> []"
  shows "on_tool_end w messages (PDict d) =
           (messages @ [PDict [(''geocode_points'', PList pts)]],
            PDict (dict_set d ''geocode_points'' (PStr '''')),
            Inr (PDict (dict_set d ''geocode_points'' (PStr ''''))))
         \<and> map_of (dict_set d ''geocode_points'' (PStr '''')) ''geocode_points'' = Some (PStr '''')
         \<and> map_of (dict_set d ''geocode_points'' (PStr '''')) ''output'' = map_of d ''output''
         \<and> (\<forall>k. k \<noteq> ''geocode_points'' \<longrightarrow>
                map_of (dict_set d ''geocode_points'' (PStr '''')) k = map_of d k)"
  using assms by (simp add: on_tool_end_def dict_get_def map_of_dict_set Let_def)

theorem on_tool_end_moves_points_witness:
  "on_tool_end sample_world [PDict [(''role'', PStr ''user''), (''content'', PStr ''route?'')]]
     (PDict [(''output'', PStr ''x''),
             (''geocode_points'', PList [PList [PInt 1, PInt 2], PList [PInt 3, PInt 4]])])
   = ([PDict [(''role'', PStr ''user''), (''content'', PStr ''route?'')],
       PDict [(''geocode_points'', PList [PList [PInt 1, PInt 2], PList [PInt 3, PInt 4]])]],
      PDict [(''output'', PStr ''x''), (''geocode_points'', PStr '''')],
      Inr (PDict [(''output'', PStr ''x''), (''geocode_points'', PStr '''')]))"
proof -
  have a: "map_of [(''output'', PStr ''x''),
                   (''geocode_points'', PList [PList [PInt 1, PInt 2], PList [PInt 3, PInt 4]])]
             ''geocode_points''
           = Some (PList [PList [PInt 1, PInt 2], PList [PInt 3, PInt (4::int)] :: rat pyval])"
    by simp
  have b: "[PList [PInt 1, PInt 2], PList [PInt 3, PInt 4] :: rat pyval] \<noteq> []" by simp
  from on_tool_end_moves_points [OF a b, of sample_world
         "[PDict [(''role'', PStr ''user''), (''content'', PStr ''route?'')]]"]
  show ?thesis by simp
qed

text \<open>
  C2, as the specification states it, fails on an output whose \<open>geocode_points\<close> is the empty
  list: the test in the source is \<open>is not None\<close>, so the empty list is recorded and blanked
  like any other.
\<close>

theorem on_tool_end_empty_points_counterexample:
  "on_tool_end sample_world [] (PDict [(''output'', PStr ''text''), (''geocode_points'', PList [])])
   = ([PDict [(''geocode_points'', PList [])]],
      PDict [(''output'', PStr ''text''), (''geocode_points'', PStr '''')],
      Inr (PDict [(''output'', PStr ''text''), (''geocode_points'', PStr '''')]))
   \<and> fst (on_tool_end sample_world []
             (PDict [(''output'', PStr ''text''), (''geocode_points'', PList [])])) \<noteq> []
   \<and> fst (snd (on_tool_end sample_world []
                  (PDict [(''output'', PStr ''text''), (''geocode_points'', PList [])])))
       \<noteq> PDict [(''output'', PStr ''text''), (''geocode_points'', PList [])]"
  by (simp add: on_tool_end_def dict_get_def Let_def)

text \<open>
  C2, amended.  When the tool's output is a dictionary in which \<open>geocode_points\<close> is absent
  or \<open>None\<close>, \<open>on_tool_end\<close> appends nothing to the session's messages and leaves the
  output as it is; what it returns is the base handler's result for that untouched output.
\<close>

theorem on_tool_end_passes_through:
  assumes "map_of d ''geocode_points'' = None \<or> map_of d ''geocode_points'' = Some PNone"
  shows "on_tool_end w messages (PDict d)
           = (messages, PDict d, Inr (base_on_tool_end w (PDict d)))"
  using assms by (auto simp: on_tool_end_def dict_get_def)

theorem on_tool_end_passes_through_witness:
  "on_tool_end sample_world [] (PDict [(''output'', PStr ''text'')])
     = ([], PDict [(''output'', PStr ''text'')], Inr PNone)
   \<and> on_tool_end sample_world [] (PDict [(''output'', PStr ''text''), (''geocode_points'', PNone)])
     = ([], PDict [(''output'', PStr ''text''), (''geocode_points'', PNone)], Inr PNone)"
proof -
  have a: "map_of [(''output'', PStr ''text'' :: rat pyval)] ''geocode_points'' = None
           \<or> map_of [(''output'', PStr ''text'' :: rat pyval)] ''geocode_points'' = Some PNone"
    by simp
  have b: "map_of [(''output'', PStr ''text''), (''geocode_points'', PNone :: rat pyval)]
             ''geocode_points'' = None
           \<or> map_of [(''output'', PStr ''text''), (''geocode_points'', PNone :: rat pyval)]
             ''geocode_points'' = Some PNone"
    by simp
  from on_tool_end_passes_through [OF a, of sample_world "[]"]
       on_tool_end_passes_through [OF b, of sample_world "[]"]
  show ?thesis by (simp add: sample_world_def)
qed

section \<open>The route tool: instructions and coordinates\<close>

lemma then_do_Inr:
  "then_do r f = Inr y \<longleftrightarrow> (\<exists>x. r = Inr x \<and> f x = Inr y)"
  by (cases r) (simp_all add: then_do_def)

lemma itinerary_loop_aligned:
  "itinerary_loop items ds gs = Inr (ds', gs') \<Longrightarrow>
     \<exists>nd ng. ds' = ds @ nd \<and> gs' = gs @ ng
        \<and> list_all2 (\<lambda>item d. step_direction item = Inr d) items nd
        \<and> list_all2 (\<lambda>item g. step_point item = Inr g) items ng"
proof (induction items arbitrary: ds gs)
  case Nil
  then show ?case by simp
next
  case (Cons item items)
  from Cons.prems obtain d g
    where d: "step_direction item = Inr d" and g: "step_point item = Inr g"
      and rest: "itinerary_loop items (ds @ [d]) (gs @ [g]) = Inr (ds', gs')"
    by (auto split: sum.splits)
  from Cons.IH [OF rest] obtain nd ng
    where "ds' = (ds @ [d]) @ nd" and "gs' = (gs @ [g]) @ ng"
      and "list_all2 (\<lambda>item d. step_direction item = Inr d) items nd"
      and "list_all2 (\<lambda>item g. step_point item = Inr g) items ng"
    by blast
  with d g have "ds' = ds @ (d # nd) \<and> gs' = gs @ (g # ng)
      \<and> list_all2 (\<lambda>item d. step_direction item = Inr d) (item # items) (d # nd)
      \<and> list_all2 (\<lambda>item g. step_point item = Inr g) (item # items) (g # ng)"
    by simp
  then show ?case by blast
qed

text \<open>
  C3.  When \<open>get_route\<close> returns a route, it made one request, the provider's answer held a
  sequence of itinerary items, and the route is built from two lists of the same length as
  that sequence: the instruction lines, joined by newlines into \<open>output\<close>, and
  \<open>geocode_points\<close>.  At every index the instruction line is the marked instruction text
  of the item at that index and the point is that item's maneuver coordinates.
\<close>

theorem get_route_aligned:
  assumes "get_route w locations mode = (tr, Inr route)"
  shows "\<exists>route_url items directions points.
           tr = [UrlOpen route_url]
         \<and> then_do (then_do (urlopen_json w route_url) itinerary_items) py_iter = Inr items
         \<and> route = PDict [(''output'', PStr (py_join [CHR 0x0A] directions)),
                          (''geocode_points'', PList points)]
         \<and> length directions = length items
         \<and> length points = length items
         \<and> (\<forall>i < length items.
               step_direction (items ! i) = Inr (directions ! i)
             \<and> step_point (items ! i) = Inr (points ! i))"
proof -
  from assms obtain key url_wp directions points
    where tr: "tr = [UrlOpen (url_wp @ ''&key='' @ key)]"
      and steps: "route_steps w (url_wp @ ''&key='' @ key) = Inr (directions, points)"
      and route: "route = PDict [(''output'', PStr (py_join [CHR 0x0A] directions)),
                                 (''geocode_points'', PList points)]"
    unfolding get_route_def Let_def
    by (auto split: option.splits if_splits sum.splits prod.splits)
  let ?u = "url_wp @ ''&key='' @ key"
  from steps obtain result its items
    where "urlopen_json w ?u = Inr result" and "itinerary_items result = Inr its"
      and "py_iter its = Inr items" and loop: "itinerary_loop items [] [] = Inr (directions, points)"
    unfolding route_steps_def then_do_Inr by blast
  then have items: "then_do (then_do (urlopen_json w ?u) itinerary_items) py_iter = Inr items"
    by (simp add: then_do_def)
  from itinerary_loop_aligned [OF loop]
  have d: "list_all2 (\<lambda>item d. step_direction item = Inr d) items directions"
    and p: "list_all2 (\<lambda>item g. step_point item = Inr g) items points"
    by simp_all
  from d p have "length directions = length items" and "length points = length items"
    and "\<forall>i < length items.
           step_direction (items ! i) = Inr (directions ! i)
         \<and> step_point (items ! i) = Inr (points ! i)"
    by (simp_all add: list_all2_conv_all_nth)
  with tr items route show ?thesis by blast
qed

theorem get_route_aligned_witness:
  "get_route sample_world (PList [PStr ''Mumbai'', PStr ''Pune'']) ''bicycle''
     = ([UrlOpen ''http://dev.virtualearth.net/REST/V1/Routes/bicycle?wp.0=Mumbai&wp.1=Pune&key=K''],
        Inr (PDict [(''output'', PStr (''- Head north'' @ [CHR 0x0A] @ ''- Arrive'')),
                    (''geocode_points'', PList [PList [PFloat (19/2), PFloat 72],
                                                PList [PFloat 18, PFloat (147/2)]])]))
   \<and> (\<exists>route_url items directions points.
           [UrlOpen ''http://dev.virtualearth.net/REST/V1/Routes/bicycle?wp.0=Mumbai&wp.1=Pune&key=K'']
             = [UrlOpen route_url :: rat request]
         \<and> then_do (then_do (urlopen_json sample_world route_url) itinerary_items) py_iter
             = Inr items
         \<and> PDict [(''output'', PStr (''- Head north'' @ [CHR 0x0A] @ ''- Arrive'')),
                  (''geocode_points'', PList [PList [PFloat (19/2), PFloat 72],
                                              PList [PFloat 18, PFloat (147/2)]])]
             = PDict [(''output'', PStr (py_join [CHR 0x0A] directions)),
                      (''geocode_points'', PList points)]
         \<and> length directions = length items
         \<and> length points = length items
         \<and> (\<forall>i < length items.
               step_direction (items ! i) = Inr (directions ! i)
             \<and> step_point (items ! i) = Inr (points ! i)))"
proof -
  have e: "get_route sample_world (PList [PStr ''Mumbai'', PStr ''Pune'']) ''bicycle''
     = ([UrlOpen ''http://dev.virtualearth.net/REST/V1/Routes/bicycle?wp.0=Mumbai&wp.1=Pune&key=K''],
        Inr (PDict [(''output'', PStr (''- Head north'' @ [CHR 0x0A] @ ''- Arrive'')),
                    (''geocode_points'', PList [PList [PFloat (19/2), PFloat 72],
                                                PList [PFloat 18, PFloat (147/2)]])]))"
    by code_simp
  from e get_route_aligned [OF e] show ?thesis by (rule conjI)
qed

section \<open>The route tool: the request URL\<close>

lemma format1_ROUTE_URL:
  "format1 ROUTE_URL mode = ''http://dev.virtualearth.net/REST/V1/Routes/'' @ mode @ ''?''"
  by (simp add: ROUTE_URL_def)

lemma py_join_Cons: "py_join sep (x # xs) = x @ concat (map (\<lambda>y. sep @ y) xs)"
  by (induction xs arbitrary: x) simp_all

lemma add_waypoints_strs:
  "add_waypoints i (map PStr locs) route_url =
     Inr (route_url @ concat (map (\<lambda>il. (if fst il = 0 then [] else ''&'')
                                    @ ''wp.'' @ str_nat (fst il) @ ''='' @ quote (snd il))
                                  (enumerate i locs)))"
  by (induction locs arbitrary: i route_url) simp_all

lemma later_waypoints:
  "0 < i \<Longrightarrow>
   concat (map (\<lambda>il. (if fst il = 0 then [] else ''&'')
                     @ ''wp.'' @ str_nat (fst il) @ ''='' @ quote (snd il))
               (enumerate i locs))
   = concat (map (\<lambda>y. ''&'' @ y)
       (map (\<lambda>il. ''wp.'' @ str_nat (fst il) @ ''='' @ quote (snd il)) (enumerate i locs)))"
proof -
  assume "0 < i"
  then have eq: "map (\<lambda>il. (if fst il = 0 then [] else ''&'')
                     @ ''wp.'' @ str_nat (fst il) @ ''='' @ quote (snd il))
               (enumerate i locs)
           = map (\<lambda>il. ''&'' @ ''wp.'' @ str_nat (fst il) @ ''='' @ quote (snd il))
               (enumerate i locs)"
    by (intro map_cong [OF refl]) (auto simp: in_set_enumerate_eq)
  show ?thesis by (simp only: eq map_map comp_def)
qed

lemma add_waypoints_join:
  "add_waypoints 0 (map PStr locs) route_url
     = Inr (route_url @ py_join ''&'' (waypoint_params locs))"
proof (cases locs)
  case Nil
  then show ?thesis by (simp add: waypoint_params_def)
next
  case (Cons l ls)
  let ?g = "\<lambda>il. ''wp.'' @ str_nat (fst il) @ ''='' @ quote (snd il)"
  let ?h = "\<lambda>il. (if fst il = 0 then [] else ''&'') @ ?g il"
  have "0 < Suc 0" by simp
  note later = later_waypoints [OF this, of ls]
  have "concat (map ?h (enumerate 0 (l # ls)))
          = ?g (0, l) @ concat (map ?h (enumerate (Suc 0) ls))"
    by simp
  also have "\<dots> = ?g (0, l) @ concat (map (\<lambda>y. ''&'' @ y) (map ?g (enumerate (Suc 0) ls)))"
    by (simp only: later)
  also have "\<dots> = py_join ''&'' (?g (0, l) # map ?g (enumerate (Suc 0) ls))"
    by (simp only: py_join_Cons)
  also have "?g (0, l) # map ?g (enumerate (Suc 0) ls) = waypoint_params (l # ls)"
    by (simp add: waypoint_params_def)
  finally have "concat (map ?h (enumerate 0 locs)) = py_join ''&'' (waypoint_params locs)"
    unfolding Cons .
  then show ?thesis by (simp only: add_waypoints_strs)
qed

lemma get_route_strs:
  assumes "environ w ''BING_API_KEY'' = Some key" and "key \<noteq> []"
  shows "get_route w (PList (map PStr locs)) mode
           = (let route_url = ''http://dev.virtualearth.net/REST/V1/Routes/'' @ mode @ ''?''
                                @ py_join ''&'' (waypoint_params locs) @ ''&key='' @ key
              in ([UrlOpen route_url],
                  case route_steps w route_url of
                    Inl e \<Rightarrow> Inl (ConnectionError e)
                  | Inr (directions, geocode_points) \<Rightarrow>
                      Inr (PDict [(''output'', PStr (py_join [CHR 0x0A] directions)),
                                  (''geocode_points'', PList geocode_points)])))"
  using assms
  by (simp add: get_route_def then_do_def add_waypoints_join format1_ROUTE_URL Let_def)

lemma waypoint_params_nth:
  "i < length locs \<Longrightarrow>
     waypoint_params locs ! i = ''wp.'' @ str_nat i @ ''='' @ quote (locs ! i)"
  by (simp add: waypoint_params_def nth_enumerate_eq)

text \<open>
  C5.  With the routing credential set, a call of the route tool on a dictionary holding a
  list of location strings and a transport mode sends one request, to the URL that has the
  normalized mode as its path segment and then the parameters \<open>wp.0\<close>, \<open>wp.1\<close>, ... in the
  order of the input, parameter \<open>i\<close> carrying the URL-encoded location \<open>i\<close>, followed by the
  key.  That URL is the one opened, and the provider's answer for it decides the tool's result.
  For \<open>{'locations': ['Mumbai', 'Pune'], 'transportation_mode': 'cycle'}\<close> the path
  segment is \<open>bicycle\<close> and the URL contains \<open>wp.0=Mumbai&wp.1=Pune\<close>.
\<close>

theorem route_request_url:
  assumes "environ w ''BING_API_KEY'' = Some key" and "key \<noteq> []"
  shows "(map_of d ''locations'' = Some (PList (map PStr locs))
            \<and> map_of d ''transportation_mode'' = Some (PStr tm) \<longrightarrow>
          RouteRetriever_run w (PDict d)
            = (let route_url = ''http://dev.virtualearth.net/REST/V1/Routes/''
                                 @ detect_transportation_mode tm @ ''?''
                                 @ py_join ''&'' (waypoint_params locs) @ ''&key='' @ key
               in ([UrlOpen route_url],
                   case then_do (urlopen_json w route_url) (\<lambda>result.
                        then_do (itinerary_items result) (\<lambda>items.
                        then_do (py_iter items) (\<lambda>its. itinerary_loop its [] []))) of
                     Inl e \<Rightarrow> Inl (ConnectionError e)
                   | Inr (directions, geocode_points) \<Rightarrow>
                       Inr (PDict [(''output'', PStr (py_join [CHR 0x0A] directions)),
                                   (''geocode_points'', PList geocode_points)])))
          \<and> fst (RouteRetriever_run w (PDict d))
            = [UrlOpen (''http://dev.virtualearth.net/REST/V1/Routes/''
                         @ detect_transportation_mode tm @ ''?''
                         @ py_join ''&'' (waypoint_params locs) @ ''&key='' @ key)])
       \<and> length (waypoint_params locs) = length locs
       \<and> (\<forall>i < length locs.
             waypoint_params locs ! i = ''wp.'' @ str_nat i @ ''='' @ quote (locs ! i))
       \<and> RouteRetriever_run w
            (PDict [(''locations'', PList [PStr ''Mumbai'', PStr ''Pune'']),
                    (''transportation_mode'', PStr ''cycle'')])
          = (let route_url =
                   ''http://dev.virtualearth.net/REST/V1/Routes/bicycle?wp.0=Mumbai&wp.1=Pune&key=''
                     @ key
             in ([UrlOpen route_url],
                 case then_do (urlopen_json w route_url) (\<lambda>result.
                      then_do (itinerary_items result) (\<lambda>items.
                      then_do (py_iter items) (\<lambda>its. itinerary_loop its [] []))) of
                   Inl e \<Rightarrow> Inl (ConnectionError e)
                 | Inr (directions, geocode_points) \<Rightarrow>
                     Inr (PDict [(''output'', PStr (py_join [CHR 0x0A] directions)),
                                 (''geocode_points'', PList geocode_points)])))
       \<and> fst (RouteRetriever_run w
                 (PDict [(''locations'', PList [PStr ''Mumbai'', PStr ''Pune'']),
                         (''transportation_mode'', PStr ''cycle'')]))
            = [UrlOpen (''http://dev.virtualearth.net/REST/V1/Routes/bicycle?wp.0=Mumbai&wp.1=Pune&key=''
                         @ key)]"
proof -
  have general: "RouteRetriever_run w (PDict d)
            = (let route_url = ''http://dev.virtualearth.net/REST/V1/Routes/''
                                 @ detect_transportation_mode tm @ ''?''
                                 @ py_join ''&'' (waypoint_params locs) @ ''&key='' @ key
               in ([UrlOpen route_url],
                   case then_do (urlopen_json w route_url) (\<lambda>result.
                        then_do (itinerary_items result) (\<lambda>items.
                        then_do (py_iter items) (\<lambda>its. itinerary_loop its [] []))) of
                     Inl e \<Rightarrow> Inl (ConnectionError e)
                   | Inr (directions, geocode_points) \<Rightarrow>
                       Inr (PDict [(''output'', PStr (py_join [CHR 0x0A] directions)),
                                   (''geocode_points'', PList geocode_points)])))"
    if "map_of d ''locations'' = Some (PList (map PStr locs))
          \<and> map_of d ''transportation_mode'' = Some (PStr tm)"
    for d locs tm
    using that get_route_strs [OF assms, of locs "detect_transportation_mode tm"]
    by (simp add: RouteRetriever_run_def dict_get_def Let_def route_steps_def)
  have m: "detect_transportation_mode ''cycle'' = ''bicycle''" by code_simp
  have p: "py_join ''&'' (waypoint_params [''Mumbai'', ''Pune'']) = ''wp.0=Mumbai&wp.1=Pune''"
    by code_simp
  have example: "RouteRetriever_run w
            (PDict [(''locations'', PList [PStr ''Mumbai'', PStr ''Pune'']),
                    (''transportation_mode'', PStr ''cycle'')])
          = (let route_url =
                   ''http://dev.virtualearth.net/REST/V1/Routes/bicycle?wp.0=Mumbai&wp.1=Pune&key=''
                     @ key
             in ([UrlOpen route_url],
                 case then_do (urlopen_json w route_url) (\<lambda>result.
                      then_do (itinerary_items result) (\<lambda>items.
                      then_do (py_iter items) (\<lambda>its. itinerary_loop its [] []))) of
                   Inl e \<Rightarrow> Inl (ConnectionError e)
                 | Inr (directions, geocode_points) \<Rightarrow>
                     Inr (PDict [(''output'', PStr (py_join [CHR 0x0A] directions)),
                                 (''geocode_points'', PList geocode_points)])))"
    using get_route_strs [OF assms, of "[''Mumbai'', ''Pune'']" "''bicycle''"]
    by (simp add: RouteRetriever_run_def dict_get_def Let_def route_steps_def m p)
  show ?thesis
  proof (intro conjI impI allI)
    assume h: "map_of d ''locations'' = Some (PList (map PStr locs))
            \<and> map_of d ''transportation_mode'' = Some (PStr tm)"
    from general [OF h] show "RouteRetriever_run w (PDict d)
            = (let route_url = ''http://dev.virtualearth.net/REST/V1/Routes/''
                                 @ detect_transportation_mode tm @ ''?''
                                 @ py_join ''&'' (waypoint_params locs) @ ''&key='' @ key
               in ([UrlOpen route_url],
                   case then_do (urlopen_json w route_url) (\<lambda>result.
                        then_do (itinerary_items result) (\<lambda>items.
                        then_do (py_iter items) (\<lambda>its. itinerary_loop its [] []))) of
                     Inl e \<Rightarrow> Inl (ConnectionError e)
                   | Inr (directions, geocode_points) \<Rightarrow>
                       Inr (PDict [(''output'', PStr (py_join [CHR 0x0A] directions)),
                                   (''geocode_points'', PList geocode_points)])))" .
    from general [OF h] show "fst (RouteRetriever_run w (PDict d))
            = [UrlOpen (''http://dev.virtualearth.net/REST/V1/Routes/''
                         @ detect_transportation_mode tm @ ''?''
                         @ py_join ''&'' (waypoint_params locs) @ ''&key='' @ key)]"
      by (simp add: Let_def)
  next
    show "length (waypoint_params locs) = length locs"
      by (simp add: waypoint_params_def)
  next
    fix i assume "i < length locs"
    then show "waypoint_params locs ! i = ''wp.'' @ str_nat i @ ''='' @ quote (locs ! i)"
      by (rule waypoint_params_nth)
  next
    from example show "RouteRetriever_run w
            (PDict [(''locations'', PList [PStr ''Mumbai'', PStr ''Pune'']),
                    (''transportation_mode'', PStr ''cycle'')])
          = (let route_url =
                   ''http://dev.virtualearth.net/REST/V1/Routes/bicycle?wp.0=Mumbai&wp.1=Pune&key=''
                     @ key
             in ([UrlOpen route_url],
                 case then_do (urlopen_json w route_url) (\<lambda>result.
                      then_do (itinerary_items result) (\<lambda>items.
                      then_do (py_iter items) (\<lambda>its. itinerary_loop its [] []))) of
                   Inl e \<Rightarrow> Inl (ConnectionError e)
                 | Inr (directions, geocode_points) \<Rightarrow>
                     Inr (PDict [(''output'', PStr (py_join [CHR 0x0A] directions)),
                                 (''geocode_points'', PList geocode_points)])))" .
  next
    from example show "fst (RouteRetriever_run w
                 (PDict [(''locations'', PList [PStr ''Mumbai'', PStr ''Pune'']),
                         (''transportation_mode'', PStr ''cycle'')]))
            = [UrlOpen (''http://dev.virtualearth.net/REST/V1/Routes/bicycle?wp.0=Mumbai&wp.1=Pune&key=''
                         @ key)]"
      by (simp add: Let_def)
  qed
qed

text \<open>
  On the sample world the routing provider knows one URL.  The request for three locations
  by train goes to another URL and fails there; the request of the specification's example
  goes to the known URL and returns its two steps.
\<close>

theorem route_request_url_witness:
  "RouteRetriever_run sample_world
     (PDict [(''transportation_mode'', PStr ''by Train''),
             (''locations'', PList [PStr ''New York'', PStr ''K/T'', PStr ''Pune''])])
     = ([UrlOpen ''http://dev.virtualearth.net/REST/V1/Routes/Transit?wp.0=New%20York&wp.1=K%2FT&wp.2=Pune&key=K''],
        Inl (ConnectionError (External ''HTTP Error 404: Not Found'')))
   \<and> RouteRetriever_run sample_world
       (PDict [(''locations'', PList [PStr ''Mumbai'', PStr ''Pune'']),
               (''transportation_mode'', PStr ''cycle'')])
     = ([UrlOpen ''http://dev.virtualearth.net/REST/V1/Routes/bicycle?wp.0=Mumbai&wp.1=Pune&key=K''],
        Inr (PDict [(''output'', PStr (''- Head north'' @ [CHR 0x0A] @ ''- Arrive'')),
                    (''geocode_points'', PList [PList [PFloat (19/2), PFloat 72],
                                                PList [PFloat 18, PFloat (147/2)]])]))"
proof -
  have k: "environ sample_world ''BING_API_KEY'' = Some ''K''"
    by (simp add: sample_world_def)
  have n: "''K'' \<noteq> []" by simp
  have l: "map_of [(''transportation_mode'', PStr ''by Train''),
                   (''locations'', PList [PStr ''New York'', PStr ''K/T'', PStr ''Pune''])]
             ''locations''
           = Some (PList (map PStr [''New York'', ''K/T'', ''Pune'']) :: rat pyval)
         \<and> map_of [(''transportation_mode'', PStr ''by Train''),
                   (''locations'', PList [PStr ''New York'', PStr ''K/T'', PStr ''Pune''])]
             ''transportation_mode''
           = Some (PStr ''by Train'' :: rat pyval)"
    by simp
  note T = route_request_url [OF k n, where locs = "[''New York'', ''K/T'', ''Pune'']"
             and tm = "''by Train''"
             and d = "[(''transportation_mode'', PStr ''by Train''),
                       (''locations'', PList [PStr ''New York'', PStr ''K/T'', PStr ''Pune''])]"]
  have r1: "(let route_url = ''http://dev.virtualearth.net/REST/V1/Routes/''
                                 @ detect_transportation_mode ''by Train'' @ ''?''
                                 @ py_join ''&'' (waypoint_params [''New York'', ''K/T'', ''Pune''])
                                 @ ''&key='' @ ''K''
               in ([UrlOpen route_url :: rat request],
                   case then_do (urlopen_json sample_world route_url) (\<lambda>result.
                        then_do (itinerary_items result) (\<lambda>items.
                        then_do (py_iter items) (\<lambda>its. itinerary_loop its [] []))) of
                     Inl e \<Rightarrow> Inl (ConnectionError e)
                   | Inr (directions, geocode_points) \<Rightarrow>
                       Inr (PDict [(''output'', PStr (py_join [CHR 0x0A] directions)),
                                   (''geocode_points'', PList geocode_points)])))
            = ([UrlOpen ''http://dev.virtualearth.net/REST/V1/Routes/Transit?wp.0=New%20York&wp.1=K%2FT&wp.2=Pune&key=K''],
               Inl (ConnectionError (External ''HTTP Error 404: Not Found'')))"
    by code_simp
  have r2: "(let route_url =
                   ''http://dev.virtualearth.net/REST/V1/Routes/bicycle?wp.0=Mumbai&wp.1=Pune&key=''
                     @ ''K''
             in ([UrlOpen route_url :: rat request],
                 case then_do (urlopen_json sample_world route_url) (\<lambda>result.
                      then_do (itinerary_items result) (\<lambda>items.
                      then_do (py_iter items) (\<lambda>its. itinerary_loop its [] []))) of
                   Inl e \<Rightarrow> Inl (ConnectionError e)
                 | Inr (directions, geocode_points) \<Rightarrow>
                     Inr (PDict [(''output'', PStr (py_join [CHR 0x0A] directions)),
                                 (''geocode_points'', PList geocode_points)])))
            = ([UrlOpen ''http://dev.virtualearth.net/REST/V1/Routes/bicycle?wp.0=Mumbai&wp.1=Pune&key=K''],
               Inr (PDict [(''output'', PStr (''- Head north'' @ [CHR 0x0A] @ ''- Arrive'')),
                           (''geocode_points'', PList [PList [PFloat (19/2), PFloat 72],
                                                       PList [PFloat 18, PFloat (147/2)]])]))"
    by code_simp
  from T [THEN conjunct1, THEN mp, OF l, THEN conjunct1]
  have 1: "RouteRetriever_run sample_world
     (PDict [(''transportation_mode'', PStr ''by Train''),
             (''locations'', PList [PStr ''New York'', PStr ''K/T'', PStr ''Pune''])])
     = ([UrlOpen ''http://dev.virtualearth.net/REST/V1/Routes/Transit?wp.0=New%20York&wp.1=K%2FT&wp.2=Pune&key=K''],
        Inl (ConnectionError (External ''HTTP Error 404: Not Found'')))"
    unfolding r1 .
  from T [THEN conjunct2, THEN conjunct2, THEN conjunct2, THEN conjunct1]
  have 2: "RouteRetriever_run sample_world
       (PDict [(''locations'', PList [PStr ''Mumbai'', PStr ''Pune'']),
               (''transportation_mode'', PStr ''cycle'')])
     = ([UrlOpen ''http://dev.virtualearth.net/REST/V1/Routes/bicycle?wp.0=Mumbai&wp.1=Pune&key=K''],
        Inr (PDict [(''output'', PStr (''- Head north'' @ [CHR 0x0A] @ ''- Arrive'')),
                    (''geocode_points'', PList [PList [PFloat (19/2), PFloat 72],
                                                PList [PFloat 18, PFloat (147/2)]])]))"
    unfolding r2 .
  from 1 2 show ?thesis by (rule conjI)
qed

section \<open>The route tool: missing keys of the input\<close>

lemma str_nat_0: "str_nat 0 = ''0''"
  by code_simp

lemma detect_car: "detect_transportation_mode ''car'' = ''Driving''"
  by code_simp

text \<open>
  C9.  An input dictionary without \<open>transportation_mode\<close> is treated as if the mode were
  \<open>'car'\<close>, which normalizes to Driving.  An input dictionary without \<open>locations\<close> is
  treated as if the locations were the list holding one empty string: the missing key is no
  failure, and with the credential set and a string mode the request goes out with the single
  waypoint \<open>wp.0=\<close>.
\<close>

theorem route_input_defaults:
  "(map_of d ''transportation_mode'' = None \<longrightarrow>
      RouteRetriever_run w (PDict d)
        = RouteRetriever_run w (PDict (d @ [(''transportation_mode'', PStr ''car'')]))
    \<and> RouteRetriever_run w (PDict d)
        = get_route w (dict_get d ''locations'' (PList [PStr ''''])) ''Driving'')
   \<and> (map_of d ''locations'' = None \<longrightarrow>
        RouteRetriever_run w (PDict d)
          = RouteRetriever_run w (PDict (d @ [(''locations'', PList [PStr ''''])])))
   \<and> (map_of d ''locations'' = None
        \<and> dict_get d ''transportation_mode'' (PStr ''car'') = PStr tm
        \<and> environ w ''BING_API_KEY'' = Some key \<and> key \<noteq> [] \<longrightarrow>
        fst (RouteRetriever_run w (PDict d))
          = [UrlOpen (''http://dev.virtualearth.net/REST/V1/Routes/''
                       @ detect_transportation_mode tm @ ''?wp.0=&key='' @ key)])"
proof (intro conjI impI)
  assume a: "map_of d ''transportation_mode'' = None"
  then show "RouteRetriever_run w (PDict d)
        = RouteRetriever_run w (PDict (d @ [(''transportation_mode'', PStr ''car'')]))"
    by (simp add: RouteRetriever_run_def dict_get_def map_add_def split: option.splits)
  from a show "RouteRetriever_run w (PDict d)
        = get_route w (dict_get d ''locations'' (PList [PStr ''''])) ''Driving''"
    by (simp add: RouteRetriever_run_def dict_get_def detect_car Let_def)
next
  assume "map_of d ''locations'' = None"
  then show "RouteRetriever_run w (PDict d)
          = RouteRetriever_run w (PDict (d @ [(''locations'', PList [PStr ''''])]))"
    by (simp add: RouteRetriever_run_def dict_get_def map_add_def Let_def
             split: option.splits pyval.splits sum.splits)
next
  assume a: "map_of d ''locations'' = None
        \<and> dict_get d ''transportation_mode'' (PStr ''car'') = PStr tm
        \<and> environ w ''BING_API_KEY'' = Some key \<and> key \<noteq> []"
  have q: "quote [] = []" by (simp add: quote_def)
  from a show "fst (RouteRetriever_run w (PDict d))
          = [UrlOpen (''http://dev.virtualearth.net/REST/V1/Routes/''
                       @ detect_transportation_mode tm @ ''?wp.0=&key='' @ key)]"
    by (simp add: RouteRetriever_run_def get_route_def then_do_def format1_ROUTE_URL
                  str_nat_0 q Let_def dict_get_def [of d "''locations''"])
qed

theorem route_input_defaults_witness:
  "RouteRetriever_run sample_world (PDict [])
     = get_route sample_world (PList [PStr '''']) ''Driving''
   \<and> fst (RouteRetriever_run sample_world (PDict []))
     = [UrlOpen ''http://dev.virtualearth.net/REST/V1/Routes/Driving?wp.0=&key=K'']
   \<and> RouteRetriever_run sample_world (PDict [(''transportation_mode'', PStr ''On Foot'')])
     = RouteRetriever_run sample_world
         (PDict [(''transportation_mode'', PStr ''On Foot''), (''locations'', PList [PStr ''''])])
   \<and> fst (RouteRetriever_run sample_world (PDict [(''transportation_mode'', PStr ''On Foot'')]))
     = [UrlOpen ''http://dev.virtualearth.net/REST/V1/Routes/Walking?wp.0=&key=K'']"
proof -
  have k: "environ sample_world ''BING_API_KEY'' = Some ''K''"
    by (simp add: sample_world_def)
  have f: "detect_transportation_mode ''On Foot'' = ''Walking''" by code_simp
  note T1 = route_input_defaults [of "[]" sample_world "''car''" "''K''"]
  have h1: "map_of ([] :: (string \<times> rat pyval) list) ''transportation_mode'' = None" by simp
  have h2: "map_of ([] :: (string \<times> rat pyval) list) ''locations'' = None
            \<and> dict_get [] ''transportation_mode'' (PStr ''car'') = (PStr ''car'' :: rat pyval)
            \<and> environ sample_world ''BING_API_KEY'' = Some ''K'' \<and> ''K'' \<noteq> []"
    using k by (simp add: dict_get_def)
  from T1 h1 have a: "RouteRetriever_run sample_world (PDict [])
             = get_route sample_world (dict_get [] ''locations'' (PList [PStr ''''])) ''Driving''"
    by blast
  from T1 h2 have b: "fst (RouteRetriever_run sample_world (PDict []))
          = [UrlOpen (''http://dev.virtualearth.net/REST/V1/Routes/''
                       @ detect_transportation_mode ''car'' @ ''?wp.0=&key='' @ ''K'')]"
    by blast
  note T2 = route_input_defaults
         [of "[(''transportation_mode'', PStr ''On Foot'')]" sample_world "''On Foot''" "''K''"]
  have h3: "map_of [(''transportation_mode'', PStr ''On Foot'' :: rat pyval)] ''locations'' = None"
    by simp
  have h4: "map_of [(''transportation_mode'', PStr ''On Foot'' :: rat pyval)] ''locations'' = None
            \<and> dict_get [(''transportation_mode'', PStr ''On Foot'')] ''transportation_mode''
                 (PStr ''car'') = (PStr ''On Foot'' :: rat pyval)
            \<and> environ sample_world ''BING_API_KEY'' = Some ''K'' \<and> ''K'' \<noteq> []"
    using k by (simp add: dict_get_def)
  from T2 h3 have c: "RouteRetriever_run sample_world
                        (PDict [(''transportation_mode'', PStr ''On Foot'')])
     = RouteRetriever_run sample_world
         (PDict ([(''transportation_mode'', PStr ''On Foot'')]
                  @ [(''locations'', PList [PStr ''''])]))"
    by blast
  from T2 h4 have d: "fst (RouteRetriever_run sample_world
                             (PDict [(''transportation_mode'', PStr ''On Foot'')]))
          = [UrlOpen (''http://dev.virtualearth.net/REST/V1/Routes/''
                       @ detect_transportation_mode ''On Foot'' @ ''?wp.0=&key='' @ ''K'')]"
    by blast
  from a have 1: "RouteRetriever_run sample_world (PDict [])
                    = get_route sample_world (PList [PStr '''']) ''Driving''"
    by (simp add: dict_get_def)
  from b have 2: "fst (RouteRetriever_run sample_world (PDict []))
     = [UrlOpen ''http://dev.virtualearth.net/REST/V1/Routes/Driving?wp.0=&key=K'']"
    by (simp add: detect_car)
  from c have 3: "RouteRetriever_run sample_world
                    (PDict [(''transportation_mode'', PStr ''On Foot'')])
     = RouteRetriever_run sample_world
         (PDict [(''transportation_mode'', PStr ''On Foot''), (''locations'', PList [PStr ''''])])"
    by simp
  from d have 4: "fst (RouteRetriever_run sample_world
                         (PDict [(''transportation_mode'', PStr ''On Foot'')]))
     = [UrlOpen ''http://dev.virtualearth.net/REST/V1/Routes/Walking?wp.0=&key=K'']"
    by (simp add: f)
  from 1 2 3 4 show ?thesis by blast
qed

section \<open>The places tool: what happens to its errors\<close>

lemma geocode_paris:
  "get_location_data sample_world ''Paris''
     = ([Geocode ''Paris''], Inr \<lparr>latitude = 48, longitude = 2\<rparr>)"
  by (simp add: get_location_data_def location_query_def sample_world_def)

lemma geocode_paris_no_fsq:
  "get_location_data sample_world_no_fsq ''Paris''
     = ([Geocode ''Paris''], Inr \<lparr>latitude = 48, longitude = 2\<rparr>)"
  by (simp add: get_location_data_def location_query_def sample_world_no_fsq_def sample_world_def)

text \<open>
  C6.  The specification asks that the places tool fail with the missing-credential error
  when \<open>FSQ_API_KEY\<close> is unset, without a request to the places provider.  The source raises
  that error, \<open>ValueError("API KEY for FSQ must be set")\<close>, but inside the \<open>try\<close> block whose
  handler catches every exception and only prints it.  Run with the key unset on a location
  the geocoder resolves, \<open>get_places_of_interests\<close> returns \<open>None\<close> and the tool returns
  an envelope whose \<open>output\<close> is \<open>None\<close>: the error never reaches the caller.  No request
  to the places provider is made; the one request is the geocoder lookup.
\<close>

theorem places_missing_key_swallowed:
  "get_places_of_interests sample_world_no_fsq 48 2 RADIUS = ([], None)
   \<and> PlacesOfInterestTool_run sample_world_no_fsq ''Paris''
       = ([Geocode ''Paris''], Inr (PDict [(''output'', PNone)]))"
proof -
  have "environ sample_world_no_fsq ''FSQ_API_KEY'' = None"
    by (simp add: sample_world_no_fsq_def)
  then have p: "get_places_of_interests sample_world_no_fsq 48 2 RADIUS = ([], None)"
    by (simp add: get_places_of_interests_def)
  then have "PlacesOfInterestTool_run sample_world_no_fsq ''Paris''
       = ([Geocode ''Paris''], Inr (PDict [(''output'', PNone)]))"
    by (simp add: PlacesOfInterestTool_run_def geocode_paris_no_fsq Let_def)
  with p show ?thesis by (rule conjI)
qed

text \<open>
  C7.  The specification asks that the places tool fail when the search request is answered
  with a status other than 200.  The source raises
  \<open>Exception("Failed to fetch places of interest.")\<close> for it, but inside the same \<open>try\<close>
  block, whose handler only prints the exception.  Run on a provider that answers the search
  with status 500, \<open>get_places_of_interests\<close> returns \<open>None\<close> after that one request, and
  the tool returns an envelope whose \<open>output\<close> is \<open>None\<close>: the error never reaches the
  caller.
\<close>

theorem places_bad_status_swallowed:
  "requests_get sample_world (places_search_request sample_world ''F'' 48 2 RADIUS)
     = Inr \<lparr>status_code = 500, json = Inl (External ''no body'')\<rparr>
   \<and> get_places_of_interests sample_world 48 2 RADIUS
       = ([HttpGet (places_search_request sample_world ''F'' 48 2 RADIUS)], None)
   \<and> PlacesOfInterestTool_run sample_world ''Paris''
       = ([Geocode ''Paris'', HttpGet (places_search_request sample_world ''F'' 48 2 RADIUS)],
          Inr (PDict [(''output'', PNone)]))"
proof -
  have k: "environ sample_world ''FSQ_API_KEY'' = Some ''F''"
    by (simp add: sample_world_def)
  have r: "\<And>req. requests_get sample_world req
                   = Inr \<lparr>status_code = 500, json = Inl (External ''no body'')\<rparr>"
    by (simp add: sample_world_def)
  have p: "get_places_of_interests sample_world 48 2 RADIUS
          = ([HttpGet (places_search_request sample_world ''F'' 48 2 RADIUS)], None)"
    by (simp add: get_places_of_interests_def k r Let_def)
  then have t: "PlacesOfInterestTool_run sample_world ''Paris''
       = ([Geocode ''Paris'', HttpGet (places_search_request sample_world ''F'' 48 2 RADIUS)],
          Inr (PDict [(''output'', PNone)]))"
    by (simp add: PlacesOfInterestTool_run_def geocode_paris Let_def)
  from r p t show ?thesis by blast
qed

section \<open>The geocoder: no match\<close>

text \<open>
  C8, as the specification states it, fails: the exception raised for a query without a
  match has a fixed text, in which the query does not occur.
\<close>

theorem location_not_found_counterexample:
  "get_location_data sample_world ''Atlantis''
     = ([Geocode ''Atlantis''],
        Inl (PyException ''Location not found. Please refine your query.''))
   \<and> \<not> error_carries (PyException ''Location not found. Please refine your query.'')
         ''Atlantis''"
proof
  show "get_location_data sample_world ''Atlantis''
     = ([Geocode ''Atlantis''],
        Inl (PyException ''Location not found. Please refine your query.''))"
    by (simp add: get_location_data_def location_query_def sample_world_def)
  show "\<not> error_carries (PyException ''Location not found. Please refine your query.'')
         ''Atlantis''"
    by code_simp
qed

text \<open>
  C8, amended.  When the geocoder finds nothing for the query it is given,
  \<open>get_location_data\<close> fails, after that one lookup, with the generic exception whose text is
  "Location not found. Please refine your query."; the exception is the same for every
  query.
\<close>

theorem location_not_found:
  assumes "geocoder w (location_query location) = Inr None"
  shows "get_location_data w location
           = ([Geocode (location_query location)],
              Inl (PyException ''Location not found. Please refine your query.''))"
  using assms by (simp add: get_location_data_def)

theorem location_not_found_witness:
  "get_location_data sample_world ''location=Atlantis ''
     = ([Geocode ''Atlantis''],
        Inl (PyException ''Location not found. Please refine your query.''))"
proof -
  have s: "location_query ''location=Atlantis '' = ''Atlantis''" by code_simp
  have g: "geocoder sample_world (location_query ''location=Atlantis '') = Inr None"
    unfolding s by (simp add: sample_world_def)
  from location_not_found [OF g] show ?thesis unfolding s .
qed

end
